theory Spec2Isabelle
  imports Main
begin

section \<open>Transit backend: cache configuration and invalidation\<close>

text \<open>
  The embedding covers \<^verbatim>\<open>builtin/logical/transit/backend.go\<close> (\<^verbatim>\<open>initializeCache\<close>,
  \<^verbatim>\<open>invalidate\<close>) and \<^verbatim>\<open>builtin/logical/transit/path_cache_config.go\<close>
  (\<^verbatim>\<open>pathCacheConfigWrite\<close>, \<^verbatim>\<open>pathCacheConfigRead\<close>). The handlers are sequential Go
  code that mutates the lock manager and the storage; the model threads one record holding
  both, together with a trace of every call made to the lock manager, the storage and the
  logger, in program order.
\<close>

subsection \<open>Values\<close>

text \<open>The enumeration \<^verbatim>\<open>keysutil.CacheType\<close>, with the three values the handlers name.\<close>

datatype CacheType = SyncMap | LRU | NotImplemented

text \<open>
  Errors are values. \<^verbatim>\<open>ErrInvalidRequest\<close> is \<^verbatim>\<open>logical.ErrInvalidRequest\<close>;
  \<^verbatim>\<open>Wrapf fmt e\<close> is \<^verbatim>\<open>errwrap.Wrapf(fmt + "{{err}}", e)\<close>; the remaining constructors are
  the failures of the collaborators (cache construction, storage, JSON decoding).
\<close>

datatype error =
    ErrInvalidRequest
  | InvalidConfiguration
  | ConstructionFailure string
  | StorageFailure string
  | DecodeFailure
  | Wrapf string error

text \<open>
  Message texts. \<^verbatim>\<open>Sprintf_q prefix s\<close> stands for \<^verbatim>\<open>fmt.Sprintf(prefix + "%q", s)\<close>; the
  quoting done by \<^verbatim>\<open>%q\<close> is left uninterpreted.
\<close>

datatype msg = Lit string | Sprintf_q string string

datatype data_value = VString string | VInt int

text \<open>
  A \<^verbatim>\<open>*logical.Response\<close>: either the error response built by \<^verbatim>\<open>logical.ErrorResponse\<close>
  or a response carrying a \<^verbatim>\<open>Data\<close> map.
\<close>

datatype Response = ErrorResponse msg | DataResponse "string \<rightharpoonup> data_value"

text \<open>A Go result pair \<^verbatim>\<open>(*logical.Response, error)\<close>; \<open>None\<close> is \<^verbatim>\<open>nil\<close>.\<close>

type_synonym result = "Response option \<times> error option"

subsection \<open>Request fields\<close>

text \<open>
  Modelled from the spec: the field layer (\<^verbatim>\<open>framework.FieldData\<close>) is not part of the
  sources at hand. A request carries the two schema fields, each possibly absent;
  \<^verbatim>\<open>d.Get\<close> yields the zero value of the field's type for an absent field.
\<close>

record FieldData =
  raw_cache_type :: "string option"
  raw_cache_size :: "int option"

definition Get_cache_type :: "FieldData \<Rightarrow> string" where
  "Get_cache_type d = (case raw_cache_type d of None \<Rightarrow> [] | Some s \<Rightarrow> s)"

definition Get_cache_size :: "FieldData \<Rightarrow> int" where
  "Get_cache_size d = (case raw_cache_size d of None \<Rightarrow> 0 | Some n \<Rightarrow> n)"

subsection \<open>Lock manager\<close>

text \<open>
  Modelled from the spec: package \<^verbatim>\<open>keysutil\<close> (the lock manager and its two caches) is
  not part of the sources at hand. The active cache is a variant, unbounded or bounded
  LRU with its capacity, over the cached policies by name. Policies are opaque.
\<close>

type_synonym Policy = string

datatype Cache =
    TransitSyncMap "(string \<times> Policy) list"
  | TransitLRU int "(string \<times> Policy) list"

record LockManager =
  cache :: Cache

text \<open>Modelled from the spec: \<^verbatim>\<open>GetCacheType\<close> reads the active strategy.\<close>

definition GetCacheType :: "LockManager \<Rightarrow> CacheType" where
  "GetCacheType m = (case cache m of TransitSyncMap _ \<Rightarrow> SyncMap | TransitLRU _ _ \<Rightarrow> LRU)"

text \<open>Modelled from the spec: \<^verbatim>\<open>GetCacheSize\<close> reads the capacity, 0 for the unbounded cache.\<close>

definition GetCacheSize :: "LockManager \<Rightarrow> int" where
  "GetCacheSize m = (case cache m of TransitSyncMap _ \<Rightarrow> 0 | TransitLRU c _ \<Rightarrow> c)"

text \<open>
  Modelled from the spec: constructing a bounded LRU cache with capacity \<open>\<le> 0\<close> fails with
  an invalid-configuration error; otherwise the cache is fresh and empty.
\<close>

definition NewTransitLRU :: "int \<Rightarrow> error + Cache" where
  "NewTransitLRU c = (if c \<le> 0 then Inl InvalidConfiguration else Inr (TransitLRU c []))"

text \<open>
  Modelled from the spec: \<^verbatim>\<open>ConvertCacheToSyncmap\<close> replaces the active cache by a fresh
  unbounded one and is a no-op if the active cache is unbounded already.
\<close>

definition ConvertCacheToSyncmap :: "LockManager \<Rightarrow> LockManager" where
  "ConvertCacheToSyncmap m =
     (case cache m of
        TransitSyncMap _ \<Rightarrow> m
      | TransitLRU _ _ \<Rightarrow> m\<lparr>cache := TransitSyncMap []\<rparr>)"

text \<open>
  Modelled from the spec: \<^verbatim>\<open>ConvertCacheToLRU\<close> validates the capacity, is a no-op if the
  active cache is a bounded LRU of the same capacity, and otherwise constructs the new
  cache and swaps it in. A failed construction returns its error and leaves the active
  cache in place. The constructor is a parameter, \<open>newLRU\<close>, so that a construction
  failure for reasons other than the capacity check can be expressed; \<open>NewTransitLRU\<close>
  is the constructor the spec describes.
\<close>

definition is_LRU_of :: "int \<Rightarrow> Cache \<Rightarrow> bool" where
  "is_LRU_of capacity c = (case c of TransitSyncMap _ \<Rightarrow> False | TransitLRU c' _ \<Rightarrow> c' = capacity)"

definition ConvertCacheToLRU ::
  "(int \<Rightarrow> error + Cache) \<Rightarrow> int \<Rightarrow> LockManager \<Rightarrow> error option \<times> LockManager" where
  "ConvertCacheToLRU newLRU capacity m =
     (if capacity \<le> 0 then (Some InvalidConfiguration, m)
      else if is_LRU_of capacity (cache m) then (None, m)
      else (case newLRU capacity of
              Inl err \<Rightarrow> (Some err, m)
            | Inr newCache \<Rightarrow> (None, m\<lparr>cache := newCache\<rparr>)))"

text \<open>
  Modelled from the spec: \<^verbatim>\<open>InvalidatePolicy\<close> evicts the named policy from the active
  cache, if present, and does not touch storage.
\<close>

definition evict :: "string \<Rightarrow> Cache \<Rightarrow> Cache" where
  "evict name c =
     (case c of
        TransitSyncMap es \<Rightarrow> TransitSyncMap (filter (\<lambda>e. fst e \<noteq> name) es)
      | TransitLRU n es \<Rightarrow> TransitLRU n (filter (\<lambda>e. fst e \<noteq> name) es))"

definition InvalidatePolicy :: "string \<Rightarrow> LockManager \<Rightarrow> LockManager" where
  "InvalidatePolicy name m = m\<lparr>cache := evict name (cache m)\<rparr>"

subsection \<open>Storage\<close>

text \<open>
  Modelled from the spec: the storage (\<^verbatim>\<open>logical.Storage\<close>) is a get/put-by-key
  abstraction outside the sources at hand. A stored value is a JSON object, here with
  integer fields only, or bytes that do not decode. A storage may fail a read or a write
  of a key with an error of its own.
\<close>

datatype EntryValue = JSONObject "(string \<times> int) list" | Undecodable

record StorageEntry =
  Key :: string
  Value :: EntryValue

record Storage =
  entries :: "string \<rightharpoonup> EntryValue"
  get_failure :: "string \<rightharpoonup> error"
  put_failure :: "string \<rightharpoonup> error"

text \<open>\<^verbatim>\<open>s.Get(ctx, key)\<close>: the Go pair (entry, error).\<close>

definition Storage_Get :: "Storage \<Rightarrow> string \<Rightarrow> StorageEntry option \<times> error option" where
  "Storage_Get s key =
     (case get_failure s key of
        Some err \<Rightarrow> (None, Some err)
      | None \<Rightarrow> (map_option (\<lambda>v. \<lparr>Key = key, Value = v\<rparr>) (entries s key), None))"

text \<open>\<^verbatim>\<open>s.Put(ctx, entry)\<close>: the error, and the storage after the call.\<close>

definition Storage_Put :: "Storage \<Rightarrow> StorageEntry \<Rightarrow> error option \<times> Storage" where
  "Storage_Put s e =
     (case put_failure s (Key e) of
        Some err \<Rightarrow> (Some err, s)
      | None \<Rightarrow> (None, s\<lparr>entries := (entries s)(Key e \<mapsto> Value e)\<rparr>))"

text \<open>
  Modelled from the spec: the persisted enum values correspond to
  Unbounded / LRU / NotImplemented, in this order.
\<close>

definition CacheType_code :: "CacheType \<Rightarrow> int" where
  "CacheType_code t = (case t of SyncMap \<Rightarrow> 0 | LRU \<Rightarrow> 1 | NotImplemented \<Rightarrow> 2)"

text \<open>
  \<^verbatim>\<open>configCacheType\<close> with its JSON tags, and \<^verbatim>\<open>logical.StorageEntryJSON\<close> on it, which
  returns an entry or an encoding error; encoding two integers does not fail.
\<close>

record configCacheType =
  CacheType_field :: CacheType
  Size_field :: int

definition StorageEntryJSON :: "string \<Rightarrow> configCacheType \<Rightarrow> error + StorageEntry" where
  "StorageEntryJSON k v =
     Inr \<lparr>Key = k,
          Value = JSONObject [(''cacheType'', CacheType_code (CacheType_field v)),
                              (''size'', Size_field v)]\<rparr>"

text \<open>
  Modelled from the spec: \<^verbatim>\<open>configCacheSize\<close> is declared outside the sources at hand;
  its record is \<^verbatim>\<open>{"Size": <int>}\<close>. Decoding reads the field \<^verbatim>\<open>Size\<close>, which keeps
  Go's zero value when the object lacks it, and fails on bytes that are not JSON.
\<close>

definition DecodeJSON_configCacheSize :: "StorageEntry \<Rightarrow> error + int" where
  "DecodeJSON_configCacheSize e =
     (case Value e of
        Undecodable \<Rightarrow> Inl DecodeFailure
      | JSONObject fs \<Rightarrow> Inr (case map_of fs ''Size'' of None \<Rightarrow> 0 | Some n \<Rightarrow> n))"

subsection \<open>The backend and its effects\<close>

datatype event =
    LM_GetCacheType
  | LM_GetCacheSize
  | LM_ConvertCacheToSyncmap
  | LM_ConvertCacheToLRU int
  | LM_InvalidatePolicy string
  | Storage_Get_call string
  | Storage_Put_call StorageEntry
  | Logger_Debug string string

text \<open>
  The backend (\<^verbatim>\<open>b.lm\<close>, and whether \<^verbatim>\<open>b.Logger().IsDebug()\<close>), the storage handed to
  the handler, and the trace of calls made so far.
\<close>

record world =
  lm :: LockManager
  storage :: Storage
  logger_IsDebug :: bool
  trace :: "event list"

definition emit :: "event \<Rightarrow> world \<Rightarrow> world" where
  "emit ev w = w\<lparr>trace := trace w @ [ev]\<rparr>"

definition call_GetCacheType :: "world \<Rightarrow> CacheType \<times> world" where
  "call_GetCacheType w = (GetCacheType (lm w), emit LM_GetCacheType w)"

definition call_GetCacheSize :: "world \<Rightarrow> int \<times> world" where
  "call_GetCacheSize w = (GetCacheSize (lm w), emit LM_GetCacheSize w)"

definition call_ConvertCacheToSyncmap :: "world \<Rightarrow> world" where
  "call_ConvertCacheToSyncmap w =
     emit LM_ConvertCacheToSyncmap (w\<lparr>lm := ConvertCacheToSyncmap (lm w)\<rparr>)"

definition call_ConvertCacheToLRU ::
  "(int \<Rightarrow> error + Cache) \<Rightarrow> int \<Rightarrow> world \<Rightarrow> error option \<times> world" where
  "call_ConvertCacheToLRU newLRU capacity w =
     (case ConvertCacheToLRU newLRU capacity (lm w) of
        (err, m) \<Rightarrow> (err, emit (LM_ConvertCacheToLRU capacity) (w\<lparr>lm := m\<rparr>)))"

definition call_InvalidatePolicy :: "string \<Rightarrow> world \<Rightarrow> world" where
  "call_InvalidatePolicy name w =
     emit (LM_InvalidatePolicy name) (w\<lparr>lm := InvalidatePolicy name (lm w)\<rparr>)"

definition call_Get :: "string \<Rightarrow> world \<Rightarrow> (StorageEntry option \<times> error option) \<times> world" where
  "call_Get key w = (Storage_Get (storage w) key, emit (Storage_Get_call key) w)"

definition call_Put :: "StorageEntry \<Rightarrow> world \<Rightarrow> error option \<times> world" where
  "call_Put e w =
     (case Storage_Put (storage w) e of
        (err, s) \<Rightarrow> (err, emit (Storage_Put_call e) (w\<lparr>storage := s\<rparr>)))"

subsection \<open>backend.go\<close>

text \<open>
  \<^verbatim>\<open>initializeCache\<close>. The error of \<^verbatim>\<open>s.Get\<close> is bound to the blank identifier; only the
  entry is looked at. A decoding error returns at once; otherwise the target size, 0 by
  default, selects the conversion.
\<close>

definition initializeCache :: "(int \<Rightarrow> error + Cache) \<Rightarrow> world \<Rightarrow> error option \<times> world" where
  "initializeCache newLRU w =
     (case call_Get ''config/cache-size'' w of
        ((entry, _), w1) \<Rightarrow>
          (case (case entry of
                   None \<Rightarrow> Inr 0
                 | Some e \<Rightarrow> DecodeJSON_configCacheSize e) of
             Inl err \<Rightarrow> (Some err, w1)
           | Inr targetSize \<Rightarrow>
               if targetSize = 0 then (None, call_ConvertCacheToSyncmap w1)
               else call_ConvertCacheToLRU newLRU targetSize w1))"

text \<open>\<^verbatim>\<open>strings.HasPrefix\<close> and \<^verbatim>\<open>strings.TrimPrefix\<close> on byte strings.\<close>

definition HasPrefix :: "string \<Rightarrow> string \<Rightarrow> bool" where
  "HasPrefix s p = (length p \<le> length s \<and> take (length p) s = p)"

definition TrimPrefix :: "string \<Rightarrow> string \<Rightarrow> string" where
  "TrimPrefix s p = (if HasPrefix s p then drop (length p) s else s)"

text \<open>\<^verbatim>\<open>invalidate\<close>: the debug line, then the switch with its single case.\<close>

definition invalidate :: "string \<Rightarrow> world \<Rightarrow> world" where
  "invalidate key w =
     (let w1 = (if logger_IsDebug w then emit (Logger_Debug ''invalidating key'' key) w else w)
      in if HasPrefix key ''policy/''
         then call_InvalidatePolicy (TrimPrefix key ''policy/'') w1
         else w1)"

subsection \<open>path\_cache\_config.go\<close>

definition parse_cache_type :: "string \<Rightarrow> CacheType" where
  "parse_cache_type cacheTypeStr =
     (if cacheTypeStr = ''unlimited'' then SyncMap
      else if cacheTypeStr = ''lru'' then LRU
      else NotImplemented)"

text \<open>
  The condition \<^verbatim>\<open>cacheType == b.lm.GetCacheType() && cacheSize == b.lm.GetCacheSize()\<close>;
  the second call is made only when the first comparison holds.
\<close>

definition same_as_live :: "CacheType \<Rightarrow> int \<Rightarrow> world \<Rightarrow> bool \<times> world" where
  "same_as_live cacheType cacheSize w =
     (case call_GetCacheType w of
        (t, w1) \<Rightarrow>
          if cacheType = t
          then (case call_GetCacheSize w1 of (n, w2) \<Rightarrow> (cacheSize = n, w2))
          else (False, w1))"

definition pathCacheConfigWrite ::
  "(int \<Rightarrow> error + Cache) \<Rightarrow> FieldData \<Rightarrow> world \<Rightarrow> result \<times> world" where
  "pathCacheConfigWrite newLRU d w =
     (let cacheTypeStr = Get_cache_type d;
          cacheSize = Get_cache_size d;
          cacheType = parse_cache_type cacheTypeStr
      in if cacheType = NotImplemented
         then ((Some (ErrorResponse (Sprintf_q ''unknown cache-type '' cacheTypeStr)),
                Some ErrInvalidRequest), w)
         else if cacheType = LRU \<and> cacheSize \<le> 0
         then ((Some (ErrorResponse (Lit
                  ''for lru cache-type, cache-size must be specified and be greater than zero'')),
                Some ErrInvalidRequest), w)
         else
           (case same_as_live cacheType cacheSize w of
              (True, w1) \<Rightarrow> ((None, None), w1)
            | (False, w1) \<Rightarrow>
                (let w2 = (if cacheType = SyncMap then call_ConvertCacheToSyncmap w1 else w1)
                 in case (if cacheType = LRU then call_ConvertCacheToLRU newLRU cacheSize w2
                          else (None, w2)) of
                      (Some err, w3) \<Rightarrow>
                        ((None, Some (Wrapf ''failed to convert cache-type to lru: '' err)), w3)
                    | (None, w3) \<Rightarrow>
                        (case StorageEntryJSON ''config/cache-type''
                                \<lparr>CacheType_field = cacheType, Size_field = cacheSize\<rparr> of
                           Inl err \<Rightarrow> ((None, Some err), w3)
                         | Inr entry \<Rightarrow>
                             (case call_Put entry w3 of
                                (Some err, w4) \<Rightarrow> ((None, Some err), w4)
                              | (None, w4) \<Rightarrow> ((None, None), w4))))))"

definition cache_type_name :: "CacheType \<Rightarrow> string" where
  "cache_type_name t =
     (case t of SyncMap \<Rightarrow> ''unlimited'' | LRU \<Rightarrow> ''lru'' | NotImplemented \<Rightarrow> ''unknown'')"

definition pathCacheConfigRead :: "world \<Rightarrow> result \<times> world" where
  "pathCacheConfigRead w =
     (case call_GetCacheType w of
        (t, w1) \<Rightarrow>
          (case call_GetCacheSize w1 of
             (n, w2) \<Rightarrow>
               ((Some (DataResponse [''cache_type'' \<mapsto> VString (cache_type_name t),
                                     ''cache_max_size'' \<mapsto> VInt n]),
                 None), w2)))"

subsection \<open>Vocabulary of the properties\<close>

text \<open>The events a handler run appends to the trace.\<close>

definition new_events :: "world \<Rightarrow> world \<Rightarrow> event list" where
  "new_events w w' = drop (length (trace w)) (trace w')"

text \<open>
  The lock manager's own invariant: a bounded cache has a positive capacity. Every
  operation of the manager keeps it (lemmas \<open>*_capacity\<close> below).
\<close>

definition capacity_invariant :: "LockManager \<Rightarrow> bool" where
  "capacity_invariant m =
     (case cache m of TransitSyncMap _ \<Rightarrow> True | TransitLRU c _ \<Rightarrow> 0 < c)"

text \<open>
  The invariant of a cache configuration in the spec's words, read off a persisted
  \<^verbatim>\<open>config/cache-type\<close> record: bounded LRU implies a positive capacity, unbounded
  implies capacity 0.
\<close>

definition CacheConfig_invariant :: "EntryValue \<Rightarrow> bool" where
  "CacheConfig_invariant v =
     (case v of
        Undecodable \<Rightarrow> False
      | JSONObject fs \<Rightarrow>
          (case (map_of fs ''cacheType'', map_of fs ''size'') of
             (Some t, Some n) \<Rightarrow>
               (t = CacheType_code LRU \<longrightarrow> 0 < n) \<and> (t = CacheType_code SyncMap \<longrightarrow> n = 0)
           | _ \<Rightarrow> False))"

subsection \<open>Concrete inputs\<close>

definition request :: "string \<Rightarrow> int \<Rightarrow> FieldData" where
  "request t n = \<lparr>raw_cache_type = Some t, raw_cache_size = Some n\<rparr>"

definition example_storage :: Storage where
  "example_storage =
     \<lparr>entries = Map.empty, get_failure = Map.empty, put_failure = Map.empty\<rparr>"

definition example_world :: world where
  "example_world =
     \<lparr>lm = \<lparr>cache = TransitSyncMap [(''k1'', ''p1''), (''k2'', ''p2'')]\<rparr>,
      storage = example_storage, logger_IsDebug = True, trace = []\<rparr>"

text \<open>A mount that has just been created: empty unbounded cache, given storage.\<close>

definition fresh_mount :: "Storage \<Rightarrow> world" where
  "fresh_mount s =
     \<lparr>lm = \<lparr>cache = TransitSyncMap []\<rparr>, storage = s, logger_IsDebug = False, trace = []\<rparr>"

text \<open>The storage holding exactly the record that a write of \<^verbatim>\<open>{lru, 50}\<close> persists.\<close>

definition storage_after_lru_50 :: Storage where
  "storage_after_lru_50 =
     example_storage\<lparr>entries :=
       [''config/cache-type'' \<mapsto> JSONObject [(''cacheType'', 1), (''size'', 50)]]\<rparr>"

text \<open>A storage holding a legacy record, whose reads of that record fail.\<close>

definition unreadable_storage :: Storage where
  "unreadable_storage =
     \<lparr>entries = [''config/cache-size'' \<mapsto> JSONObject [(''Size'', 50)]],
      get_failure = [''config/cache-size'' \<mapsto> StorageFailure ''read failed''],
      put_failure = Map.empty\<rparr>"

text \<open>A cache constructor that also fails above a capacity of 16.\<close>

definition limited_LRU :: "int \<Rightarrow> error + Cache" where
  "limited_LRU c =
     (if c \<le> 16 then NewTransitLRU c else Inl (ConstructionFailure ''cannot allocate''))"

section \<open>Properties\<close>

lemmas call_defs =
  call_GetCacheType_def call_GetCacheSize_def call_ConvertCacheToSyncmap_def
  call_ConvertCacheToLRU_def call_InvalidatePolicy_def call_Get_def call_Put_def emit_def

lemmas request_defs = request_def Get_cache_type_def Get_cache_size_def

lemmas eval_defs =
  example_world_def example_storage_def fresh_mount_def storage_after_lru_50_def
  unreadable_storage_def request_defs
  pathCacheConfigWrite_def same_as_live_def call_defs Let_def parse_cache_type_def
  StorageEntryJSON_def Storage_Put_def Storage_Get_def
  ConvertCacheToLRU_def ConvertCacheToSyncmap_def NewTransitLRU_def is_LRU_of_def
  GetCacheType_def GetCacheSize_def CacheType_code_def
  initializeCache_def DecodeJSON_configCacheSize_def

subsection \<open>The lock manager keeps its capacity invariant\<close>

lemma ConvertCacheToSyncmap_capacity:
  "capacity_invariant m \<Longrightarrow> capacity_invariant (ConvertCacheToSyncmap m)"
  by (simp add: capacity_invariant_def ConvertCacheToSyncmap_def split: Cache.splits)

lemma ConvertCacheToLRU_capacity:
  "capacity_invariant m \<Longrightarrow> capacity_invariant (snd (ConvertCacheToLRU NewTransitLRU c m))"
  by (simp add: capacity_invariant_def ConvertCacheToLRU_def NewTransitLRU_def)

lemma InvalidatePolicy_capacity:
  "capacity_invariant m \<Longrightarrow> capacity_invariant (InvalidatePolicy name m)"
  by (simp add: capacity_invariant_def InvalidatePolicy_def evict_def split: Cache.splits)

lemma invalidate_capacity:
  "capacity_invariant (lm w) \<Longrightarrow> capacity_invariant (lm (invalidate key w))"
  by (simp add: invalidate_def call_defs Let_def InvalidatePolicy_capacity)

lemma initializeCache_capacity:
  assumes "capacity_invariant (lm w)"
  shows "capacity_invariant (lm (snd (initializeCache NewTransitLRU w)))"
proof -
  have "capacity_invariant (lm (snd (call_ConvertCacheToLRU NewTransitLRU c (emit ev w))))" for c ev
    using ConvertCacheToLRU_capacity [OF assms, of c]
    by (auto simp: call_defs split: prod.splits)
  moreover have "capacity_invariant (lm (call_ConvertCacheToSyncmap (emit ev w)))" for ev
    using ConvertCacheToSyncmap_capacity [OF assms] by (simp add: call_defs)
  moreover have "lm (emit ev w) = lm w" for ev
    by (simp add: emit_def)
  ultimately show ?thesis
    using assms
    by (simp add: initializeCache_def call_Get_def split: prod.splits option.splits sum.splits)
qed

lemma pathCacheConfigWrite_capacity:
  assumes "capacity_invariant (lm w)"
  shows "capacity_invariant (lm (snd (pathCacheConfigWrite NewTransitLRU d w)))"
  using assms
  by (auto simp: pathCacheConfigWrite_def same_as_live_def call_defs Let_def capacity_invariant_def
      ConvertCacheToLRU_def ConvertCacheToSyncmap_def NewTransitLRU_def Storage_Put_def
      StorageEntryJSON_def
      split: if_splits prod.splits option.splits bool.splits Cache.splits)

subsection \<open>Startup\<close>

lemma initializeCache_no_legacy_record:
  assumes "entries (storage w) ''config/cache-size'' = None"
  shows "initializeCache newLRU w =
           (None, call_ConvertCacheToSyncmap (emit (Storage_Get_call ''config/cache-size'') w))"
  using assms
  by (simp add: initializeCache_def call_Get_def Storage_Get_def split: option.splits)

lemma initializeCache_legacy_record:
  assumes "get_failure (storage w) ''config/cache-size'' = None"
    and "entries (storage w) ''config/cache-size'' = Some (JSONObject [(''Size'', n)])"
  shows "initializeCache NewTransitLRU w =
           (if n = 0
            then (None, call_ConvertCacheToSyncmap (emit (Storage_Get_call ''config/cache-size'') w))
            else call_ConvertCacheToLRU NewTransitLRU n (emit (Storage_Get_call ''config/cache-size'') w))"
  using assms
  by (simp add: initializeCache_def call_Get_def Storage_Get_def DecodeJSON_configCacheSize_def)

lemma initializeCache_decode_failure:
  assumes "get_failure (storage w) ''config/cache-size'' = None"
    and "entries (storage w) ''config/cache-size'' = Some Undecodable"
  shows "fst (initializeCache newLRU w) = Some DecodeFailure"
  using assms
  by (simp add: initializeCache_def call_Get_def Storage_Get_def DecodeJSON_configCacheSize_def)

text \<open>
  C1. The claim: at startup the configuration is restored from the primary record
  \<^verbatim>\<open>config/cache-type\<close>, the legacy record \<^verbatim>\<open>config/cache-size\<close> being consulted only
  when the primary one is absent. The code reads \<^verbatim>\<open>config/cache-size\<close> alone. Evaluated
  on the storage that a successful write of \<^verbatim>\<open>{lru, 50}\<close> leaves behind, a fresh mount
  makes one storage read, of \<^verbatim>\<open>config/cache-size\<close>, converts to the unbounded cache and
  reports type \<^verbatim>\<open>SyncMap\<close> with size 0: the persisted LRU configuration is not restored.
\<close>

theorem initializeCache_ignores_persisted_cache_type:
  "fst (pathCacheConfigWrite NewTransitLRU (request ''lru'' 50) (fresh_mount example_storage))
     = (None, None)
   \<and> storage (snd (pathCacheConfigWrite NewTransitLRU (request ''lru'' 50)
                     (fresh_mount example_storage)))
     = storage_after_lru_50
   \<and> initializeCache NewTransitLRU (fresh_mount storage_after_lru_50)
     = (None, (fresh_mount storage_after_lru_50)
                \<lparr>trace := [Storage_Get_call ''config/cache-size'', LM_ConvertCacheToSyncmap]\<rparr>)
   \<and> GetCacheType (lm (snd (initializeCache NewTransitLRU (fresh_mount storage_after_lru_50))))
     = SyncMap
   \<and> GetCacheSize (lm (snd (initializeCache NewTransitLRU (fresh_mount storage_after_lru_50))))
     = 0"
  by (simp add: eval_defs)

subsection \<open>Writing the cache configuration\<close>

text \<open>
  C2. A write whose requested cache type and size equal the live type and size of the
  lock manager makes the two reads of the live configuration and nothing else: no
  conversion, no storage call, and it returns \<^verbatim>\<open>(nil, nil)\<close>. The live lock manager is
  one that satisfies its capacity invariant.
\<close>

theorem pathCacheConfigWrite_same_as_live:
  assumes "parse_cache_type (Get_cache_type d) = GetCacheType (lm w)"
    and "Get_cache_size d = GetCacheSize (lm w)"
    and "capacity_invariant (lm w)"
  shows "pathCacheConfigWrite newLRU d w =
           ((None, None), w\<lparr>trace := trace w @ [LM_GetCacheType, LM_GetCacheSize]\<rparr>)"
  using assms
  by (auto simp: pathCacheConfigWrite_def same_as_live_def call_defs Let_def
      capacity_invariant_def GetCacheType_def GetCacheSize_def split: Cache.splits)

theorem pathCacheConfigWrite_same_as_live_witness:
  "parse_cache_type (Get_cache_type (request ''unlimited'' 0)) = GetCacheType (lm example_world)
   \<and> Get_cache_size (request ''unlimited'' 0) = GetCacheSize (lm example_world)
   \<and> capacity_invariant (lm example_world)
   \<and> pathCacheConfigWrite NewTransitLRU (request ''unlimited'' 0) example_world =
       ((None, None), example_world\<lparr>trace := [LM_GetCacheType, LM_GetCacheSize]\<rparr>)"
proof -
  have h1: "parse_cache_type (Get_cache_type (request ''unlimited'' 0))
              = GetCacheType (lm example_world)"
    by (simp add: request_defs parse_cache_type_def GetCacheType_def example_world_def)
  have h2: "Get_cache_size (request ''unlimited'' 0) = GetCacheSize (lm example_world)"
    by (simp add: request_defs GetCacheSize_def example_world_def)
  have h3: "capacity_invariant (lm example_world)"
    by (simp add: capacity_invariant_def example_world_def)
  have "trace example_world = []"
    by (simp add: example_world_def)
  with pathCacheConfigWrite_same_as_live [OF h1 h2 h3, of NewTransitLRU] h1 h2 h3
  show ?thesis by simp
qed

text \<open>
  C3. A write whose cache-type is neither \<^verbatim>\<open>unlimited\<close> nor \<^verbatim>\<open>lru\<close>, or whose cache-type
  is \<^verbatim>\<open>lru\<close> with a cache-size of at most 0, returns an error response with its message
  together with \<^verbatim>\<open>ErrInvalidRequest\<close>, and leaves everything as it was: the lock
  manager, the storage, and the trace (no call was made at all).
\<close>

theorem pathCacheConfigWrite_invalid_request:
  assumes "Get_cache_type d \<notin> {''unlimited'', ''lru''} \<or>
           (Get_cache_type d = ''lru'' \<and> Get_cache_size d \<le> 0)"
  shows "pathCacheConfigWrite newLRU d w =
           ((Some (ErrorResponse
                 (if Get_cache_type d = ''lru''
                  then Lit ''for lru cache-type, cache-size must be specified and be greater than zero''
                  else Sprintf_q ''unknown cache-type '' (Get_cache_type d))),
             Some ErrInvalidRequest), w)"
  using assms by (auto simp: pathCacheConfigWrite_def parse_cache_type_def Let_def)

theorem pathCacheConfigWrite_invalid_request_witness:
  "pathCacheConfigWrite NewTransitLRU \<lparr>raw_cache_type = Some ''bogus'', raw_cache_size = None\<rparr>
       example_world
     = ((Some (ErrorResponse (Sprintf_q ''unknown cache-type '' ''bogus'')),
         Some ErrInvalidRequest), example_world)
   \<and> pathCacheConfigWrite NewTransitLRU \<lparr>raw_cache_type = Some ''lru'', raw_cache_size = None\<rparr>
       example_world
     = ((Some (ErrorResponse (Lit
           ''for lru cache-type, cache-size must be specified and be greater than zero'')),
         Some ErrInvalidRequest), example_world)"
  using pathCacheConfigWrite_invalid_request
          [of "\<lparr>raw_cache_type = Some ''bogus'', raw_cache_size = None\<rparr>" NewTransitLRU example_world]
        pathCacheConfigWrite_invalid_request
          [of "\<lparr>raw_cache_type = Some ''lru'', raw_cache_size = None\<rparr>" NewTransitLRU example_world]
  by (simp add: Get_cache_type_def Get_cache_size_def)

text \<open>
  C4. The claim: every persisted configuration satisfies the invariant, in particular a
  record written for cache-type \<^verbatim>\<open>unlimited\<close> has size 0. The handler stores the
  requested size as it came: a write of \<^verbatim>\<open>{unlimited, 7}\<close> persists the record
  \<^verbatim>\<open>{"cacheType": 0, "size": 7}\<close>, which breaks the invariant.
\<close>

theorem pathCacheConfigWrite_unlimited_keeps_size:
  "entries (storage (snd (pathCacheConfigWrite NewTransitLRU (request ''unlimited'' 7)
                            example_world)))
      ''config/cache-type'' = Some (JSONObject [(''cacheType'', 0), (''size'', 7)])
   \<and> \<not> CacheConfig_invariant (JSONObject [(''cacheType'', 0), (''size'', 7)])"
  by (simp add: eval_defs CacheConfig_invariant_def)

text \<open>
  C4, as the code has it. Every entry the write handler puts is the record
  \<^verbatim>\<open>config/cache-type\<close> holding the requested strategy, which is unbounded or LRU, and the
  requested size unchanged; for LRU that size is positive.
\<close>

theorem pathCacheConfigWrite_persisted_record:
  assumes "Storage_Put_call e \<in> set (new_events w (snd (pathCacheConfigWrite newLRU d w)))"
  shows "e = \<lparr>Key = ''config/cache-type'',
              Value = JSONObject
                [(''cacheType'', CacheType_code (parse_cache_type (Get_cache_type d))),
                 (''size'', Get_cache_size d)]\<rparr>
       \<and> (parse_cache_type (Get_cache_type d) = SyncMap \<or>
          parse_cache_type (Get_cache_type d) = LRU)
       \<and> (parse_cache_type (Get_cache_type d) = LRU \<longrightarrow> 0 < Get_cache_size d)"
  using assms
  by (cases "parse_cache_type (Get_cache_type d)")
     (auto simp: pathCacheConfigWrite_def same_as_live_def call_defs Let_def new_events_def
      StorageEntryJSON_def
      split: if_splits prod.splits option.splits bool.splits)

theorem pathCacheConfigWrite_persisted_record_witness:
  "Storage_Put_call \<lparr>Key = ''config/cache-type'',
                     Value = JSONObject [(''cacheType'', 1), (''size'', 50)]\<rparr>
     \<in> set (new_events example_world
              (snd (pathCacheConfigWrite NewTransitLRU (request ''lru'' 50) example_world)))
   \<and> parse_cache_type (Get_cache_type (request ''lru'' 50)) = LRU
   \<and> 0 < Get_cache_size (request ''lru'' 50)"
proof -
  have h: "Storage_Put_call \<lparr>Key = ''config/cache-type'',
                             Value = JSONObject [(''cacheType'', 1), (''size'', 50)]\<rparr>
     \<in> set (new_events example_world
              (snd (pathCacheConfigWrite NewTransitLRU (request ''lru'' 50) example_world)))"
    by (simp add: eval_defs new_events_def)
  have "parse_cache_type (Get_cache_type (request ''lru'' 50)) \<noteq> SyncMap"
    by (simp add: request_defs parse_cache_type_def)
  with pathCacheConfigWrite_persisted_record [OF h] h show ?thesis
    by blast
qed

text \<open>
  C5. When the conversion to the bounded LRU cache fails during a write, the handler
  returns the conversion's error wrapped with \<^verbatim>\<open>failed to convert cache-type to lru\<close>,
  makes no storage call, and the lock manager is as it was before the write.
\<close>

theorem pathCacheConfigWrite_conversion_failure:
  assumes "Get_cache_type d = ''lru''" and "0 < Get_cache_size d"
    and "ConvertCacheToLRU newLRU (Get_cache_size d) (lm w) = (Some err, m')"
  shows "fst (pathCacheConfigWrite newLRU d w) =
           (None, Some (Wrapf ''failed to convert cache-type to lru: '' err))
       \<and> storage (snd (pathCacheConfigWrite newLRU d w)) = storage w
       \<and> lm (snd (pathCacheConfigWrite newLRU d w)) = lm w
       \<and> new_events w (snd (pathCacheConfigWrite newLRU d w)) =
           (if GetCacheType (lm w) = LRU then [LM_GetCacheType, LM_GetCacheSize]
            else [LM_GetCacheType])
             @ [LM_ConvertCacheToLRU (Get_cache_size d)]"
  using assms
  by (auto simp: pathCacheConfigWrite_def same_as_live_def call_defs Let_def parse_cache_type_def
      ConvertCacheToLRU_def is_LRU_of_def new_events_def
      GetCacheType_def GetCacheSize_def split: Cache.splits sum.splits if_splits)

theorem pathCacheConfigWrite_conversion_failure_witness:
  "ConvertCacheToLRU limited_LRU (Get_cache_size (request ''lru'' 50)) (lm example_world)
     = (Some (ConstructionFailure ''cannot allocate''), lm example_world)
   \<and> fst (pathCacheConfigWrite limited_LRU (request ''lru'' 50) example_world) =
       (None, Some (Wrapf ''failed to convert cache-type to lru: ''
                      (ConstructionFailure ''cannot allocate'')))
   \<and> storage (snd (pathCacheConfigWrite limited_LRU (request ''lru'' 50) example_world))
       = storage example_world
   \<and> lm (snd (pathCacheConfigWrite limited_LRU (request ''lru'' 50) example_world))
       = lm example_world
   \<and> new_events example_world
       (snd (pathCacheConfigWrite limited_LRU (request ''lru'' 50) example_world))
       = [LM_GetCacheType, LM_ConvertCacheToLRU 50]"
proof -
  have h1: "Get_cache_type (request ''lru'' 50) = ''lru''"
    and h2: "0 < Get_cache_size (request ''lru'' 50)"
    by (simp_all add: request_defs)
  have h3: "ConvertCacheToLRU limited_LRU (Get_cache_size (request ''lru'' 50)) (lm example_world)
              = (Some (ConstructionFailure ''cannot allocate''), lm example_world)"
    by (simp add: request_defs ConvertCacheToLRU_def limited_LRU_def example_world_def
        is_LRU_of_def)
  have h4: "GetCacheType (lm example_world) \<noteq> LRU"
    and h5: "Get_cache_size (request ''lru'' 50) = 50"
    by (simp_all add: GetCacheType_def example_world_def request_defs)
  from pathCacheConfigWrite_conversion_failure [OF h1 h2 h3] h3 h4 h5
  show ?thesis by simp
qed

text \<open>
  C6. For a capacity \<open>c > 0\<close>, after a write with cache-type \<^verbatim>\<open>lru\<close> and cache-size \<open>c\<close>,
  a read answers \<^verbatim>\<open>cache_type = "lru"\<close> and \<^verbatim>\<open>cache_max_size = c\<close>, whatever the state
  before the write and whether or not the storage accepted the record.
\<close>

theorem write_lru_then_read:
  assumes "Get_cache_type d = ''lru''" and "Get_cache_size d = c" and "0 < c"
  shows "fst (pathCacheConfigRead (snd (pathCacheConfigWrite NewTransitLRU d w))) =
           (Some (DataResponse [''cache_type'' \<mapsto> VString ''lru'',
                                ''cache_max_size'' \<mapsto> VInt c]), None)"
  using assms
  by (auto simp: pathCacheConfigWrite_def same_as_live_def call_defs Let_def parse_cache_type_def
      pathCacheConfigRead_def cache_type_name_def StorageEntryJSON_def Storage_Put_def
      ConvertCacheToLRU_def NewTransitLRU_def is_LRU_of_def
      GetCacheType_def GetCacheSize_def split: Cache.splits option.splits prod.splits)

theorem write_lru_then_read_witness:
  "fst (pathCacheConfigRead
          (snd (pathCacheConfigWrite NewTransitLRU (request ''lru'' 50) example_world))) =
     (Some (DataResponse [''cache_type'' \<mapsto> VString ''lru'',
                          ''cache_max_size'' \<mapsto> VInt 50]), None)"
  using write_lru_then_read [of "request ''lru'' 50" 50 example_world]
  by (simp add: request_defs)

subsection \<open>Reading the cache configuration\<close>

text \<open>
  C7. A read returns a response and no error. Its \<^verbatim>\<open>cache_type\<close> is \<^verbatim>\<open>unlimited\<close> when
  the live strategy is the unbounded cache and \<^verbatim>\<open>lru\<close> otherwise, the live strategy being
  one of the two; its \<^verbatim>\<open>cache_max_size\<close> is the live capacity, which is 0 for the
  unbounded cache. The read changes neither the lock manager nor the storage.
\<close>

theorem pathCacheConfigRead_reports_live:
  "fst (pathCacheConfigRead w) =
      (Some (DataResponse
         [''cache_type'' \<mapsto>
            VString (if GetCacheType (lm w) = SyncMap then ''unlimited'' else ''lru''),
          ''cache_max_size'' \<mapsto> VInt (GetCacheSize (lm w))]), None)
   \<and> (GetCacheType (lm w) = SyncMap \<or> GetCacheType (lm w) = LRU)
   \<and> (GetCacheType (lm w) = SyncMap \<longrightarrow> GetCacheSize (lm w) = 0)
   \<and> lm (snd (pathCacheConfigRead w)) = lm w
   \<and> storage (snd (pathCacheConfigRead w)) = storage w"
  by (simp add: pathCacheConfigRead_def call_defs GetCacheType_def GetCacheSize_def
      cache_type_name_def split: Cache.splits)

theorem pathCacheConfigRead_reports_live_witness:
  "GetCacheType (lm example_world) = SyncMap
   \<and> fst (pathCacheConfigRead example_world) =
      (Some (DataResponse [''cache_type'' \<mapsto> VString ''unlimited'',
                           ''cache_max_size'' \<mapsto> VInt 0]), None)"
proof -
  have h: "GetCacheType (lm example_world) = SyncMap"
    by (simp add: GetCacheType_def example_world_def)
  with pathCacheConfigRead_reports_live [of example_world] show ?thesis
    by simp
qed

subsection \<open>Storage failures\<close>

lemma pathCacheConfigWrite_put_failure:
  assumes "put_failure (storage w) ''config/cache-type'' = Some err"
    and "Storage_Put_call e \<in> set (new_events w (snd (pathCacheConfigWrite newLRU d w)))"
  shows "fst (pathCacheConfigWrite newLRU d w) = (None, Some err)"
  using assms
  by (cases "parse_cache_type (Get_cache_type d)")
     (auto simp: pathCacheConfigWrite_def same_as_live_def call_defs Let_def new_events_def
      StorageEntryJSON_def Storage_Put_def
      split: if_splits prod.splits option.splits bool.splits)

text \<open>
  C8. The claim: every failure of a storage read or write of the configuration record,
  the startup read included, reaches the caller. The write handler returns the error of
  a failed \<^verbatim>\<open>Put\<close> (lemma \<open>pathCacheConfigWrite_put_failure\<close>). The startup read does not:
  on a storage whose read of \<^verbatim>\<open>config/cache-size\<close> fails, \<^verbatim>\<open>initializeCache\<close> returns no
  error and converts to the unbounded cache, although a legacy record of size 50 is
  stored.
\<close>

theorem initializeCache_drops_read_failure:
  "Storage_Get unreadable_storage ''config/cache-size''
     = (None, Some (StorageFailure ''read failed''))
   \<and> initializeCache NewTransitLRU (fresh_mount unreadable_storage)
     = (None, (fresh_mount unreadable_storage)
                \<lparr>trace := [Storage_Get_call ''config/cache-size'', LM_ConvertCacheToSyncmap]\<rparr>)"
  by (simp add: eval_defs)

subsection \<open>Invalidation\<close>

text \<open>
  C9. For a key with the prefix \<^verbatim>\<open>policy/\<close>, the callback calls \<^verbatim>\<open>InvalidatePolicy\<close> once,
  with the rest of the key after that prefix as the name; besides the debug line, this is
  its only effect.
\<close>

theorem invalidate_policy_key:
  assumes "HasPrefix key ''policy/''"
  shows "key = ''policy/'' @ TrimPrefix key ''policy/'' \<and>
         invalidate key w =
           w\<lparr>lm := InvalidatePolicy (TrimPrefix key ''policy/'') (lm w),
             trace := trace w
               @ (if logger_IsDebug w then [Logger_Debug ''invalidating key'' key] else [])
               @ [LM_InvalidatePolicy (TrimPrefix key ''policy/'')]\<rparr>"
proof -
  from assms have "take (length ''policy/'') key = ''policy/''"
    by (simp add: HasPrefix_def)
  then have "''policy/'' @ drop (length ''policy/'') key = key"
    by (metis append_take_drop_id)
  with assms show ?thesis
    by (simp add: invalidate_def TrimPrefix_def call_defs Let_def)
qed

theorem invalidate_policy_key_witness:
  "HasPrefix ''policy/k1'' ''policy/''
   \<and> TrimPrefix ''policy/k1'' ''policy/'' = ''k1''
   \<and> invalidate ''policy/k1'' example_world =
       example_world
         \<lparr>lm := \<lparr>cache = TransitSyncMap [(''k2'', ''p2'')]\<rparr>,
          trace := [Logger_Debug ''invalidating key'' ''policy/k1'', LM_InvalidatePolicy ''k1'']\<rparr>"
proof -
  have h: "HasPrefix ''policy/k1'' ''policy/''"
    by (simp add: HasPrefix_def)
  have t: "TrimPrefix ''policy/k1'' ''policy/'' = ''k1''"
    by (simp add: TrimPrefix_def HasPrefix_def)
  have e: "InvalidatePolicy ''k1'' (lm example_world) = \<lparr>cache = TransitSyncMap [(''k2'', ''p2'')]\<rparr>"
    by (simp add: InvalidatePolicy_def evict_def example_world_def)
  have d: "logger_IsDebug example_world" "trace example_world = []"
    by (simp_all add: example_world_def)
  from invalidate_policy_key [OF h, of example_world] h t e d show ?thesis
    by simp
qed

text \<open>
  C10. For a key without the prefix \<^verbatim>\<open>policy/\<close>, the callback makes no call to the lock
  manager: apart from the debug line, the backend is unchanged, so the cache, the live
  configuration and the storage are as before.
\<close>

theorem invalidate_other_key:
  assumes "\<not> HasPrefix key ''policy/''"
  shows "invalidate key w =
           w\<lparr>trace := trace w
               @ (if logger_IsDebug w then [Logger_Debug ''invalidating key'' key] else [])\<rparr>"
  using assms by (simp add: invalidate_def call_defs Let_def)

theorem invalidate_other_key_witness:
  "\<not> HasPrefix ''archive/k1'' ''policy/''
   \<and> invalidate ''archive/k1'' example_world =
       example_world\<lparr>trace := [Logger_Debug ''invalidating key'' ''archive/k1'']\<rparr>"
proof -
  have h: "\<not> HasPrefix ''archive/k1'' ''policy/''"
    by (simp add: HasPrefix_def)
  have d: "logger_IsDebug example_world" "trace example_world = []"
    by (simp_all add: example_world_def)
  from invalidate_other_key [OF h, of example_world] h d show ?thesis
    by simp
qed

end
